theory Spec2Isabelle
  imports Complex_Main "HOL-Library.Word" "HOL-Library.Monad_Syntax"
begin

unbundle bit_operations_syntax

section \<open>Vector registers and the intrinsics the kernels use\<close>

text \<open>
  A 256-bit register is the list of its lanes, lane 0 first: sixteen 16-bit lanes for the
  \<open>epi16\<close> intrinsics, eight 32-bit lanes for the \<open>epi32\<close> ones.  A pointer argument
  (\<open>const short *\<close>, \<open>const int32_t *\<close>) is the function that maps an element offset to the
  element stored there; \<open>unsigned int\<close> counts are natural numbers.
\<close>

type_synonym m256i_epi16 = "16 word list"
type_synonym m256i_epi32 = "32 word list"

definition mm256_setzero_si256 :: "m256i_epi16" where
  "mm256_setzero_si256 = replicate 16 0"

definition mm256_loadu_si256 :: "(nat \<Rightarrow> 16 word) \<Rightarrow> nat \<Rightarrow> m256i_epi16" where
  "mm256_loadu_si256 p off = map (\<lambda>k. p (off + k)) [0..<16]"

text \<open>Signed saturation to the range of \<open>short\<close>, as \<open>_mm256_adds_epi16\<close> does per lane.\<close>

definition saturate16 :: "int \<Rightarrow> 16 word" where
  "saturate16 v =
     (if v > 32767 then 32767 else if v < - 32768 then - 32768 else word_of_int v)"

definition mm256_adds_epi16 :: "m256i_epi16 \<Rightarrow> m256i_epi16 \<Rightarrow> m256i_epi16" where
  "mm256_adds_epi16 a b = map2 (\<lambda>x y. saturate16 (sint x + sint y)) a b"


definition mm256_set1_epi32 :: "32 word \<Rightarrow> m256i_epi32" where
  "mm256_set1_epi32 a = replicate 8 a"

text \<open>\<open>_mm256_set_epi32\<close> takes its arguments from lane 7 down to lane 0.\<close>

definition mm256_set_epi32 ::
  "32 word \<Rightarrow> 32 word \<Rightarrow> 32 word \<Rightarrow> 32 word \<Rightarrow> 32 word \<Rightarrow> 32 word \<Rightarrow> 32 word \<Rightarrow> 32 word
     \<Rightarrow> m256i_epi32" where
  "mm256_set_epi32 e7 e6 e5 e4 e3 e2 e1 e0 = [e0, e1, e2, e3, e4, e5, e6, e7]"

definition mm256_add_epi32 :: "m256i_epi32 \<Rightarrow> m256i_epi32 \<Rightarrow> m256i_epi32" where
  "mm256_add_epi32 a b = map2 (\<lambda>x y. x + y) a b"

definition mm256_srli_epi32 :: "m256i_epi32 \<Rightarrow> nat \<Rightarrow> m256i_epi32" where
  "mm256_srli_epi32 a imm8 = map (drop_bit imm8) a"

text \<open>The gather reads \<open>base[idx]\<close> for the signed 32-bit index of each lane (scale 4).\<close>

definition mm256_i32gather_epi32 :: "(int \<Rightarrow> 32 word) \<Rightarrow> m256i_epi32 \<Rightarrow> m256i_epi32" where
  "mm256_i32gather_epi32 base vindex = map (\<lambda>i. base (sint i)) vindex"

definition mm256_extract_epi32 :: "m256i_epi32 \<Rightarrow> nat \<Rightarrow> 32 word" where
  "mm256_extract_epi32 a index = a ! index"

section \<open>Double-precision values\<close>

text \<open>
  A \<open>double\<close> is a finite value or one of the special values of IEEE 754.  Finite values
  are real numbers and the arithmetic on them is exact: rounding, overflow to infinity and
  the sign of zero are not modelled.  The special values follow IEEE 754 and Annex F of the
  C standard: a nonzero value divided by zero is an infinity, \<open>0 / 0\<close> and
  \<open>inf - inf\<close> are NaN, NaN propagates through every operation, every comparison with NaN
  is false, \<open>atan\<close> of an infinity is \<open>pi / 2\<close> with the sign of the infinity, \<open>sqrt\<close> and \<open>log10\<close> of a negative value
  are NaN and \<open>log10 0\<close> is \<open>-inf\<close>.  A zero divisor is taken as \<open>+0\<close>, which is what the
  conversion of an \<open>int\<close> to \<open>double\<close> produces.
\<close>

datatype double = Num real | PosInf | NegInf | NaN

definition d_of_int :: "int \<Rightarrow> double" where
  "d_of_int i = Num (of_int i)"

fun dneg :: "double \<Rightarrow> double" where
  "dneg (Num a) = Num (- a)"
| "dneg PosInf = NegInf"
| "dneg NegInf = PosInf"
| "dneg NaN = NaN"

fun dadd :: "double \<Rightarrow> double \<Rightarrow> double" where
  "dadd (Num a) (Num b) = Num (a + b)"
| "dadd (Num a) PosInf = PosInf"
| "dadd (Num a) NegInf = NegInf"
| "dadd PosInf (Num b) = PosInf"
| "dadd PosInf PosInf = PosInf"
| "dadd PosInf NegInf = NaN"
| "dadd NegInf (Num b) = NegInf"
| "dadd NegInf PosInf = NaN"
| "dadd NegInf NegInf = NegInf"
| "dadd NaN y = NaN"
| "dadd (Num a) NaN = NaN"
| "dadd PosInf NaN = NaN"
| "dadd NegInf NaN = NaN"

definition dsub :: "double \<Rightarrow> double \<Rightarrow> double" where
  "dsub x y = dadd x (dneg y)"

fun dmul :: "double \<Rightarrow> double \<Rightarrow> double" where
  "dmul (Num a) (Num b) = Num (a * b)"
| "dmul (Num a) PosInf = (if a = 0 then NaN else if 0 < a then PosInf else NegInf)"
| "dmul (Num a) NegInf = (if a = 0 then NaN else if 0 < a then NegInf else PosInf)"
| "dmul PosInf (Num b) = (if b = 0 then NaN else if 0 < b then PosInf else NegInf)"
| "dmul NegInf (Num b) = (if b = 0 then NaN else if 0 < b then NegInf else PosInf)"
| "dmul PosInf PosInf = PosInf"
| "dmul PosInf NegInf = NegInf"
| "dmul NegInf PosInf = NegInf"
| "dmul NegInf NegInf = PosInf"
| "dmul NaN y = NaN"
| "dmul (Num a) NaN = NaN"
| "dmul PosInf NaN = NaN"
| "dmul NegInf NaN = NaN"

fun ddiv :: "double \<Rightarrow> double \<Rightarrow> double" where
  "ddiv (Num a) (Num b) =
     (if b \<noteq> 0 then Num (a / b)
      else if a = 0 then NaN else if 0 < a then PosInf else NegInf)"
| "ddiv (Num a) PosInf = Num 0"
| "ddiv (Num a) NegInf = Num 0"
| "ddiv PosInf (Num b) = (if 0 \<le> b then PosInf else NegInf)"
| "ddiv NegInf (Num b) = (if 0 \<le> b then NegInf else PosInf)"
| "ddiv PosInf PosInf = NaN"
| "ddiv PosInf NegInf = NaN"
| "ddiv NegInf PosInf = NaN"
| "ddiv NegInf NegInf = NaN"
| "ddiv NaN y = NaN"
| "ddiv (Num a) NaN = NaN"
| "ddiv PosInf NaN = NaN"
| "ddiv NegInf NaN = NaN"

text \<open>The comparisons \<open><\<close> and \<open>>\<close> of C.\<close>

fun dlt :: "double \<Rightarrow> double \<Rightarrow> bool" where
  "dlt (Num a) (Num b) = (a < b)"
| "dlt (Num a) PosInf = True"
| "dlt (Num a) NegInf = False"
| "dlt PosInf y = False"
| "dlt NegInf (Num b) = True"
| "dlt NegInf PosInf = True"
| "dlt NegInf NegInf = False"
| "dlt NaN y = False"
| "dlt (Num a) NaN = False"
| "dlt NegInf NaN = False"

definition dgt :: "double \<Rightarrow> double \<Rightarrow> bool" where
  "dgt x y = dlt y x"

fun dsqrt :: "double \<Rightarrow> double" where
  "dsqrt (Num a) = (if 0 \<le> a then Num (sqrt a) else NaN)"
| "dsqrt PosInf = PosInf"
| "dsqrt NegInf = NaN"
| "dsqrt NaN = NaN"

fun datan :: "double \<Rightarrow> double" where
  "datan (Num a) = Num (arctan a)"
| "datan PosInf = Num (pi / 2)"
| "datan NegInf = Num (- (pi / 2))"
| "datan NaN = NaN"

fun dlog10 :: "double \<Rightarrow> double" where
  "dlog10 (Num a) = (if 0 < a then Num (log 10 a) else if a = 0 then NegInf else NaN)"
| "dlog10 PosInf = PosInf"
| "dlog10 NegInf = NaN"
| "dlog10 NaN = NaN"

fun dceil :: "double \<Rightarrow> double" where
  "dceil (Num a) = Num (of_int \<lceil>a\<rceil>)"
| "dceil PosInf = PosInf"
| "dceil NegInf = NegInf"
| "dceil NaN = NaN"



text \<open>
  Conversions of a \<open>double\<close> to an integer type truncate toward zero.  The C standard leaves
  the conversion undefined when the truncated value does not fit the type, and for the
  special values: the model returns \<open>None\<close> there.
\<close>

definition truncate_toward_zero :: "real \<Rightarrow> int" where
  "truncate_toward_zero a = (if 0 \<le> a then \<lfloor>a\<rfloor> else \<lceil>a\<rceil>)"

fun int_of_double :: "double \<Rightarrow> int option" where
  "int_of_double (Num a) =
     (let t = truncate_toward_zero a
      in if - 2147483648 \<le> t \<and> t \<le> 2147483647 then Some t else None)"
| "int_of_double PosInf = None"
| "int_of_double NegInf = None"
| "int_of_double NaN = None"

fun short_of_double :: "double \<Rightarrow> int option" where
  "short_of_double (Num a) =
     (let t = truncate_toward_zero a
      in if - 32768 \<le> t \<and> t \<le> 32767 then Some t else None)"
| "short_of_double PosInf = None"
| "short_of_double NegInf = None"
| "short_of_double NaN = None"

fun long_of_double :: "double \<Rightarrow> int option" where
  "long_of_double (Num a) =
     (let t = truncate_toward_zero a
      in if - 9223372036854775808 \<le> t \<and> t \<le> 9223372036854775807 then Some t else None)"
| "long_of_double PosInf = None"
| "long_of_double NegInf = None"
| "long_of_double NaN = None"

fun uint_of_double :: "double \<Rightarrow> 32 word option" where
  "uint_of_double (Num a) =
     (let t = truncate_toward_zero a
      in if 0 \<le> t \<and> t \<le> 4294967295 then Some (word_of_int t) else None)"
| "uint_of_double PosInf = None"
| "uint_of_double NegInf = None"
| "uint_of_double NaN = None"

text \<open>Integer division and remainder of C truncate toward zero.\<close>

definition c_div :: "int \<Rightarrow> int \<Rightarrow> int" where
  "c_div a b = (if (a < 0) = (b < 0) then \<bar>a\<bar> div \<bar>b\<bar> else - (\<bar>a\<bar> div \<bar>b\<bar>))"

definition c_rem :: "int \<Rightarrow> int \<Rightarrow> int" where
  "c_rem a b = (if a < 0 then - (\<bar>a\<bar> mod \<bar>b\<bar>) else \<bar>a\<bar> mod \<bar>b\<bar>)"

text \<open>A step that is defined only when its condition holds.\<close>

definition require :: "bool \<Rightarrow> unit option" where
  "require c = (if c then Some () else None)"

section \<open>Accumulate and multiply-accumulate kernels on \<open>short\<close>\<close>

text \<open>
  \<open>avx_accumulate_short\<close>: the batched loop adds sixteen lanes at a time with
  \<open>_mm256_adds_epi16\<close>; the lanes are then summed into the \<open>int\<close> \<open>returnValue\<close>, and the
  leftover elements are added one by one.  \<open>returnValue\<close> is a 32-bit two's-complement
  word, so an overflow of the \<open>int\<close>, which C leaves undefined, wraps around in the
  model; the function returns it converted to \<open>double\<close>, which is exact, so the model
  returns its signed value.
\<close>

definition avx_accumulate_short :: "(nat \<Rightarrow> 16 word) \<Rightarrow> nat \<Rightarrow> int" where
  "avx_accumulate_short inputBuffer num_points =
     (let sixteenthPoints = num_points div 16;
          accumulator =
            foldl (\<lambda>accumulator number.
                     mm256_adds_epi16 accumulator (mm256_loadu_si256 inputBuffer (16 * number)))
              mm256_setzero_si256 [0..<sixteenthPoints];
          tempBuffer = accumulator;
          returnValue = foldl (\<lambda>r t. r + scast t) (0 :: 32 word) tempBuffer;
          returnValue =
            foldl (\<lambda>r number. r + scast (inputBuffer number))
              returnValue [sixteenthPoints * 16..<num_points]
      in sint returnValue)"

text \<open>
  \<open>avx_accumulate_short_unsat\<close>: the body of the source function, which also calls
  \<open>_mm256_adds_epi16\<close> in its batched loop.
\<close>

definition avx_accumulate_short_unsat :: "(nat \<Rightarrow> 16 word) \<Rightarrow> nat \<Rightarrow> int" where
  "avx_accumulate_short_unsat inputBuffer num_points =
     (let sixteenthPoints = num_points div 16;
          accumulator =
            foldl (\<lambda>accumulator number.
                     mm256_adds_epi16 accumulator (mm256_loadu_si256 inputBuffer (16 * number)))
              mm256_setzero_si256 [0..<sixteenthPoints];
          tempBuffer = accumulator;
          returnValue = foldl (\<lambda>r t. r + scast t) (0 :: 32 word) tempBuffer;
          returnValue =
            foldl (\<lambda>r number. r + scast (inputBuffer number))
              returnValue [sixteenthPoints * 16..<num_points]
      in sint returnValue)"

text \<open>
  The rollover semantics that the documentation of \<open>avx_accumulate_short_unsat\<close> describes,
  written from its words: a running sum kept in the 16-bit type, which wraps from the
  maximum to the minimum.
\<close>

definition accumulate_short_rollover :: "(nat \<Rightarrow> 16 word) \<Rightarrow> nat \<Rightarrow> int" where
  "accumulate_short_rollover inputBuffer num_points =
     sint (foldl (\<lambda>r number. r + inputBuffer number) (0 :: 16 word) [0..<num_points])"

text \<open>An input of 32 samples whose lane 0 receives 32767 and then 1.\<close>

definition rollover_input :: "nat \<Rightarrow> 16 word" where
  "rollover_input i = (if i = 0 then 32767 else if i = 16 then 1 else 0)"






section \<open>Carrier oscillator: batched and per-sample lookup\<close>

text \<open>
  Both generators convert the remaining carrier phase and the frequency ratio to 32-bit
  phase words with the same two expressions,
  \<open>(unsigned int)(rem_carr_phase * (4294967296.0 / (2.0 * M_PI)) + 0.5)\<close> and
  \<open>(unsigned int)(carr_freq * (4294967296.0 / samp_freq) + 0.5)\<close>.
\<close>

definition M_PI :: real where
  "M_PI = 3.14159265358979323846"

definition nco_phase_word :: "double \<Rightarrow> 32 word option" where
  "nco_phase_word rem_carr_phase =
     uint_of_double
       (dadd (dmul rem_carr_phase (ddiv (Num 4294967296) (dmul (Num 2) (Num M_PI)))) (Num 0.5))"

definition nco_step_word :: "double \<Rightarrow> double \<Rightarrow> 32 word option" where
  "nco_step_word carr_freq samp_freq =
     uint_of_double (dadd (dmul carr_freq (ddiv (Num 4294967296) samp_freq)) (Num 0.5))"

text \<open>
  The body of \<open>avx2_nco_si32\<close> after the two conversions; the result is the list of the
  samples written to \<open>sig_nco\<close>.  \<open>blk_size\<close> is a natural number: the block sizes the
  generators are specified for are not negative.
\<close>

definition avx2_nco_si32_loop ::
  "(int \<Rightarrow> 32 word) \<Rightarrow> nat \<Rightarrow> 32 word \<Rightarrow> 32 word \<Rightarrow> 32 word list" where
  "avx2_nco_si32_loop lut blk_size nom_carr_phase_base nom_carr_step =
     (let eight_points = blk_size div 8;
          carr_phase_base = mm256_set1_epi32 nom_carr_phase_base;
          carr_step_base =
            mm256_set_epi32 (7 * nom_carr_step) (6 * nom_carr_step) (5 * nom_carr_step)
              (4 * nom_carr_step) (3 * nom_carr_step) (2 * nom_carr_step)
              (1 * nom_carr_step) (0 * nom_carr_step);
          carr_step_offset = mm256_set1_epi32 (8 * nom_carr_step);
          carr_phase_base = mm256_add_epi32 carr_phase_base carr_step_base;
          (sig_nco, carr_phase_base) =
            foldl (\<lambda>(sig_nco, carr_phase_base) inda.
                     let carr_idx = mm256_srli_epi32 carr_phase_base 24;
                         nco = mm256_i32gather_epi32 lut carr_idx;
                         carr_phase_base = mm256_add_epi32 carr_phase_base carr_step_offset
                     in (sig_nco @ nco, carr_phase_base))
              ([], carr_phase_base) [0..<eight_points];
          nom_carr_phase_base = mm256_extract_epi32 carr_phase_base 7;
          (sig_nco, nom_carr_phase_base) =
            foldl (\<lambda>(sig_nco, nom_carr_phase_base) inda.
                     let nom_carr_idx = drop_bit 24 nom_carr_phase_base AND 0xFF
                     in (sig_nco @ [lut (uint nom_carr_idx)],
                         nom_carr_phase_base + nom_carr_step))
              (sig_nco, nom_carr_phase_base) [eight_points * 8..<blk_size]
      in sig_nco)"

definition avx2_nco_si32 ::
  "(int \<Rightarrow> 32 word) \<Rightarrow> nat \<Rightarrow> double \<Rightarrow> double \<Rightarrow> double \<Rightarrow> 32 word list option" where
  "avx2_nco_si32 lut blk_size rem_carr_phase carr_freq samp_freq =
     do {
       nom_carr_step \<leftarrow> nco_step_word carr_freq samp_freq;
       nom_carr_phase_base \<leftarrow> nco_phase_word rem_carr_phase;
       Some (avx2_nco_si32_loop lut blk_size nom_carr_phase_base nom_carr_step)
     }"

definition avx2_nom_nco_si32_loop ::
  "(int \<Rightarrow> 32 word) \<Rightarrow> nat \<Rightarrow> 32 word \<Rightarrow> 32 word \<Rightarrow> 32 word list" where
  "avx2_nom_nco_si32_loop lut blk_size carrPhaseBase carrStep =
     (let (sig_nco, carrPhaseBase) =
            foldl (\<lambda>(sig_nco, carrPhaseBase) inda.
                     let carrIndex = drop_bit 24 carrPhaseBase AND 0xFF
                     in (sig_nco @ [lut (uint carrIndex)], carrPhaseBase + carrStep))
              ([], carrPhaseBase) [0..<blk_size]
      in sig_nco)"

definition avx2_nom_nco_si32 ::
  "(int \<Rightarrow> 32 word) \<Rightarrow> nat \<Rightarrow> double \<Rightarrow> double \<Rightarrow> double \<Rightarrow> 32 word list option" where
  "avx2_nom_nco_si32 lut blk_size rem_carr_phase carr_freq samp_freq =
     do {
       carrPhaseBase \<leftarrow> nco_phase_word rem_carr_phase;
       carrStep \<leftarrow> nco_step_word carr_freq samp_freq;
       Some (avx2_nom_nco_si32_loop lut blk_size carrPhaseBase carrStep)
     }"

text \<open>
  The sample that the per-sample generator writes at position \<open>i\<close>: the table entry selected
  by the top 8 bits of the phase word \<open>base + i * step\<close>.
\<close>

definition lut_sample :: "(int \<Rightarrow> 32 word) \<Rightarrow> 32 word \<Rightarrow> 32 word \<Rightarrow> nat \<Rightarrow> 32 word" where
  "lut_sample lut base step i = lut (uint (drop_bit 24 (base + of_nat i * step) AND 0xFF))"

text \<open>A lookup table that stores at each of its 256 entries the entry's own index.\<close>

definition index_lut :: "int \<Rightarrow> 32 word" where
  "index_lut i = word_of_int i"

section \<open>Trigonometric approximations\<close>

text \<open>
  The macros \<open>gps_sin\<close> and \<open>gps_cos\<close>.  Their argument in the tracking loop is
  \<open>angle_vec[i]\<close>, which holds the integer \<open>(int)(trigarg * 10000) % 62832\<close>.
\<close>

definition gps_sin :: "int \<Rightarrow> int" where
  "gps_sin x = (if (x > 31416) \<or> (x < 0 \<and> x > - 31416) then - 1 else 1)"

definition gps_cos :: "int \<Rightarrow> int" where
  "gps_cos x = (if (x > 15708 \<and> x < 47124) \<or> (x < - 15708 \<and> x > - 47124) then - 1 else 1)"

section \<open>Code replica generator\<close>


text \<open>
  The index expression of \<open>avx2_nom_code_si32\<close>,
  \<open>(int32_t)(x) < x ? (x + 1) : x\<close> assigned to an \<open>int\<close>.
\<close>

definition nom_code_idx :: "double \<Rightarrow> int option" where
  "nom_code_idx x =
     do {
       t \<leftarrow> int_of_double x;
       int_of_double (if dlt (d_of_int t) x then dadd x (Num 1) else x)
     }"

text \<open>The three indices of one iteration of the loop of \<open>avx2_nom_code_si32\<close>.\<close>

definition nom_code_indices :: "double \<Rightarrow> double \<Rightarrow> int \<Rightarrow> (int \<times> int \<times> int) option" where
  "nom_code_indices codePhaseStep rem_code_phase inda =
     (let earlyLateSpc = Num 0.5;
          baseCode = dadd (dmul (d_of_int inda) codePhaseStep) rem_code_phase
      in do {
           pCodeIdx \<leftarrow> nom_code_idx baseCode;
           eCodeIdx \<leftarrow> nom_code_idx (dsub baseCode earlyLateSpc);
           lCodeIdx \<leftarrow> nom_code_idx (dadd baseCode earlyLateSpc);
           Some (eCodeIdx, pCodeIdx, lCodeIdx)
         })"

text \<open>\<open>avx2_nom_code_si32\<close> returns the early, prompt and late sequences.\<close>

definition avx2_nom_code_si32 ::
  "(int \<Rightarrow> 32 word) \<Rightarrow> int \<Rightarrow> double \<Rightarrow> double \<Rightarrow> double
     \<Rightarrow> (32 word list \<times> 32 word list \<times> 32 word list) option" where
  "avx2_nom_code_si32 cacode blk_size rem_code_phase code_freq samp_freq =
     (let codePhaseStep = ddiv code_freq samp_freq
      in do {
           idx \<leftarrow> those (map (\<lambda>inda. nom_code_indices codePhaseStep rem_code_phase (int inda))
                          [0..<nat blk_size]);
           Some (map (\<lambda>(e, p, l). cacode e) idx,
                 map (\<lambda>(e, p, l). cacode p) idx,
                 map (\<lambda>(e, p, l). cacode l) idx)
         })"

text \<open>
  The tracking loop writes the same expression with a \<open>short\<close> cast in the comparison,
  \<open>(short)(x) < x ? (x + 1) : x\<close>, and takes the spacing from its configuration.
\<close>

definition main_code_idx :: "double \<Rightarrow> int option" where
  "main_code_idx x =
     do {
       t \<leftarrow> short_of_double x;
       int_of_double (if dlt (d_of_int t) x then dadd x (Num 1) else x)
     }"

definition main_code_indices :: "double \<Rightarrow> double \<Rightarrow> (int \<times> int \<times> int) option" where
  "main_code_indices baseCode earlyLateSpc' =
     do {
       pCode \<leftarrow> main_code_idx baseCode;
       eCode \<leftarrow> main_code_idx (dsub baseCode earlyLateSpc');
       lCode \<leftarrow> main_code_idx (dadd baseCode earlyLateSpc');
       Some (eCode, pCode, lCode)
     }"

section \<open>The tracking loop\<close>

text \<open>
  \<open>config\<close> holds what \<open>main\<close> reads from its data files before the loop; \<open>tracking\<close>
  holds the variables that live across epochs, the sample buffer, the unread rest of the
  sample file with the position \<open>ftell\<close> reports, and the output arrays.  The thirteen
  output arrays are one list of records, indexed by the epoch.
\<close>

definition pi_const :: real where
  "pi_const = 3.1415926535"

record config =
  caCode :: "double list"
  init_blksize :: int
  init_remCodePhase :: double
  earlyLateSpc :: double
  samplingFreq :: double
  init_remCarrPhase :: double
  init_carrFreq :: double
  seekvalue :: double
  tau1carr :: double
  tau2carr :: double
  PDIcarr :: double
  carrFreqBasis :: double
  tau1code :: double
  tau2code :: double
  PDIcode :: double
  codeLength :: double
  codePeriods :: int
  dataAdaptCoeff :: int
  vsmInterval :: int
  accInt :: double

record result =
  carrFreq_output :: double
  codeFreq_output :: double
  absoluteSample_output :: double
  codeError_output :: double
  codeNco_output :: double
  carrError_output :: double
  carrNco_output :: double
  I_E_output :: double
  I_P_output :: double
  I_L_output :: double
  Q_E_output :: double
  Q_P_output :: double
  Q_L_output :: double

record tracking =
  remCodePhase :: double
  remCarrPhase :: double
  carrFreq :: double
  codeFreq :: double
  oldCarrNco :: double
  oldCarrError :: double
  oldCodeNco :: double
  oldCodeError :: double
  vsmCount :: int
  pwrSum :: double
  pwrSqrSum :: double
  rawSignal :: "8 word list"
  fpdata :: "8 word list"
  fpos :: int
  outputs :: "result list"
  VSMIndex :: "double list"
  VSMValue :: "double list"

text \<open>
  The correlation kernel \<open>avx512_mul_and_acc_16i\<close> is declared in a header that is not
  part of the sources at hand, so the loop takes it as a parameter: a function of the two
  vectors and their length that returns a \<open>double\<close>.
\<close>

type_synonym mul_and_acc = "16 word list \<Rightarrow> 16 word list \<Rightarrow> int \<Rightarrow> double"

type_synonym sample_vecs = "(16 word \<times> 16 word \<times> 16 word \<times> 16 word \<times> 16 word) list"

definition codeFreqBasis :: double where
  "codeFreqBasis = Num 1023002.79220779"

text \<open>\<open>*(caCode + idx)\<close> stored into a \<open>short\<close>; the table has the length of \<open>caCode\<close>.\<close>

definition caCode_at :: "config \<Rightarrow> int \<Rightarrow> 16 word option" where
  "caCode_at cfg idx =
     do {
       require (0 \<le> idx \<and> idx < int (length (caCode cfg)));
       v \<leftarrow> short_of_double (caCode cfg ! nat idx);
       Some (word_of_int v)
     }"

text \<open>
  \<open>fread\<close> copies what the stream still holds, at most \<open>n\<close> bytes, to the start of the
  buffer and leaves the rest of the buffer as it was; it returns the number of bytes read.
\<close>

definition fread :: "8 word list \<Rightarrow> nat \<Rightarrow> 8 word list \<Rightarrow> 8 word list \<times> 8 word list \<times> nat" where
  "fread ptr n stream =
     (let got = take n stream
      in (got @ drop (length got) ptr, drop n stream, length got))"

text \<open>\<open>blksize = ceil((codeLength - remCodePhase) / codePhaseStep)\<close>.\<close>

definition block_size :: "double \<Rightarrow> double \<Rightarrow> double \<Rightarrow> int option" where
  "block_size codeLength' remCodePhase' codePhaseStep =
     int_of_double (dceil (ddiv (dsub codeLength' remCodePhase') codePhaseStep))"

text \<open>
  One iteration of the loop over the samples of a block: the mixed carrier samples and the
  early, prompt and late code samples at index \<open>i\<close>.  The bytes of \<open>rawSignal\<close> are signed.
\<close>

definition block_sample ::
  "config \<Rightarrow> tracking \<Rightarrow> double \<Rightarrow> 8 word list \<Rightarrow> int
     \<Rightarrow> (16 word \<times> 16 word \<times> 16 word \<times> 16 word \<times> 16 word) option" where
  "block_sample cfg st codePhaseStep rawSignal' i =
     do {
       let trigarg =
             dadd (dmul (dmul (dmul (Num 2) (Num pi_const)) (carrFreq st))
                     (ddiv (d_of_int i) (samplingFreq cfg)))
               (remCarrPhase st);
       a \<leftarrow> int_of_double (dmul trigarg (Num 10000));
       let angle = c_rem a 62832;
       let carrCos = 8 * gps_cos angle;
       let carrSin = 8 * gps_sin angle;
       let mixedcarrSin = (word_of_int (carrSin * sint (rawSignal' ! nat i)) :: 16 word);
       let mixedcarrCos = (word_of_int (carrCos * sint (rawSignal' ! nat i)) :: 16 word);
       let baseCode = dadd (dmul (d_of_int i) codePhaseStep) (remCodePhase st);
       (eCode, pCode, lCode) \<leftarrow> main_code_indices baseCode (earlyLateSpc cfg);
       p \<leftarrow> caCode_at cfg pCode;
       e \<leftarrow> caCode_at cfg eCode;
       l \<leftarrow> caCode_at cfg lCode;
       Some (mixedcarrSin, mixedcarrCos, e, p, l)
     }"

text \<open>The carrier-to-noise estimate and its running sums.\<close>

definition vsm_update :: "config \<Rightarrow> int \<Rightarrow> double \<Rightarrow> double \<Rightarrow> tracking \<Rightarrow> tracking" where
  "vsm_update cfg loopcount I_P Q_P st =
     (let pwr = dadd (dmul I_P I_P) (dmul Q_P Q_P);
          pwrSum = dadd (pwrSum st) pwr;
          pwrSqrSum = dadd (pwrSqrSum st) (dmul pwr pwr);
          vsmCount = vsmCount st + 1
      in if vsmCount = vsmInterval cfg then
           let pwrMean = ddiv pwrSum (d_of_int (vsmInterval cfg));
               pwrVar = dsub (ddiv pwrSqrSum (d_of_int (vsmInterval cfg))) (dmul pwrMean pwrMean);
               pwrAvgSqr = dsub (dmul pwrMean pwrMean) pwrVar;
               pwrAvgSqr = (if dgt pwrAvgSqr (Num 0) then pwrAvgSqr else dneg pwrAvgSqr);
               pwrAvg = dsqrt pwrAvgSqr;
               noiseVar = dmul (Num 0.5) (dsub pwrMean pwrAvg);
               CNo = ddiv (ddiv pwrAvg (accInt cfg)) (dmul (Num 2) noiseVar);
               CNo = (if dgt CNo (Num 0) then CNo else dneg CNo);
               CNo = dmul (Num 10) (dlog10 CNo)
           in st\<lparr>VSMIndex := (VSMIndex st)[nat (c_div loopcount (vsmInterval cfg)) :=
                                  d_of_int (loopcount + 1)],
                 VSMValue := (VSMValue st)[nat (c_div loopcount (vsmInterval cfg)) := CNo],
                 vsmCount := 0, pwrSum := Num 0, pwrSqrSum := Num 0\<rparr>
         else st\<lparr>vsmCount := vsmCount, pwrSum := pwrSum, pwrSqrSum := pwrSqrSum\<rparr>)"

text \<open>\<open>remCodePhase = ((remCodePhase) + (blksize)*codePhaseStep - 1023)\<close>.\<close>

definition advance_remCodePhase :: "double \<Rightarrow> int \<Rightarrow> double \<Rightarrow> double" where
  "advance_remCodePhase remCodePhase' blksize codePhaseStep =
     dsub (dadd remCodePhase' (dmul (d_of_int blksize) codePhaseStep)) (Num 1023)"

definition advance_remCarrPhase :: "config \<Rightarrow> tracking \<Rightarrow> int \<Rightarrow> double option" where
  "advance_remCarrPhase cfg st blksize =
     (let trigarg =
            dadd (dmul (dmul (dmul (Num 2) (Num pi_const)) (carrFreq st))
                    (ddiv (d_of_int blksize) (samplingFreq cfg)))
              (remCarrPhase st)
      in do {
           k \<leftarrow> int_of_double (ddiv trigarg (dmul (Num 2) (Num pi_const)));
           Some (dsub trigarg (dmul (dmul (Num 2) (Num pi_const)) (d_of_int k)))
         })"

text \<open>\<open>carrError = atan(Q_P / I_P) / (2.0 * pi)\<close>.\<close>

definition carr_discriminator :: "double \<Rightarrow> double \<Rightarrow> double" where
  "carr_discriminator I_P Q_P = ddiv (datan (ddiv Q_P I_P)) (dmul (Num 2) (Num pi_const))"

text \<open>The loop filter, written twice in the source, for the carrier and for the code.\<close>

definition loop_filter ::
  "double \<Rightarrow> double \<Rightarrow> double \<Rightarrow> double \<Rightarrow> double \<Rightarrow> double \<Rightarrow> double" where
  "loop_filter oldNco oldError tau1 tau2 PDI error =
     dadd (dadd oldNco (dmul (ddiv tau2 tau1) (dsub error oldError)))
       (dmul error (ddiv PDI tau1))"

definition code_discriminator :: "double \<Rightarrow> double \<Rightarrow> double \<Rightarrow> double \<Rightarrow> double" where
  "code_discriminator I_E Q_E I_L Q_L =
     ddiv (dsub (dsqrt (dadd (dmul I_E I_E) (dmul Q_E Q_E)))
                (dsqrt (dadd (dmul I_L I_L) (dmul Q_L Q_L))))
          (dadd (dsqrt (dadd (dmul I_E I_E) (dmul Q_E Q_E)))
                (dsqrt (dadd (dmul I_L I_L) (dmul Q_L Q_L))))"

text \<open>
  The arithmetic of one epoch once the block has been read and the replicas generated: the
  six correlation sums, the carrier-to-noise estimate, the phase advance, the two
  discriminators and loop filters, and the record of the epoch.  It is a total function.
\<close>

definition epoch_tail ::
  "config \<Rightarrow> mul_and_acc \<Rightarrow> int \<Rightarrow> tracking \<Rightarrow> int \<Rightarrow> 8 word list \<Rightarrow> 8 word list \<Rightarrow> int
     \<Rightarrow> sample_vecs \<Rightarrow> double \<Rightarrow> tracking" where
  "epoch_tail cfg avx512_mul_and_acc_16i loopcount st blksize rawSignal' fpdata' fpos' vecs
     remCarrPhase' =
     (let codePhaseStep = ddiv (codeFreq st) (samplingFreq cfg);
          mixedcarrSin_vec = map (\<lambda>(s, c, e, p, l). s) vecs;
          mixedcarrCos_vec = map (\<lambda>(s, c, e, p, l). c) vecs;
          eCode_vec = map (\<lambda>(s, c, e, p, l). e) vecs;
          pCode_vec = map (\<lambda>(s, c, e, p, l). p) vecs;
          lCode_vec = map (\<lambda>(s, c, e, p, l). l) vecs;
          I_E = avx512_mul_and_acc_16i eCode_vec mixedcarrSin_vec blksize;
          I_L = avx512_mul_and_acc_16i lCode_vec mixedcarrSin_vec blksize;
          I_P = avx512_mul_and_acc_16i pCode_vec mixedcarrSin_vec blksize;
          Q_E = avx512_mul_and_acc_16i eCode_vec mixedcarrCos_vec blksize;
          Q_L = avx512_mul_and_acc_16i lCode_vec mixedcarrCos_vec blksize;
          Q_P = avx512_mul_and_acc_16i pCode_vec mixedcarrCos_vec blksize;
          st' = vsm_update cfg loopcount I_P Q_P st;
          remCodePhase' = advance_remCodePhase (remCodePhase st) blksize codePhaseStep;
          carrError = carr_discriminator I_P Q_P;
          carrNco = loop_filter (oldCarrNco st) (oldCarrError st)
                      (tau1carr cfg) (tau2carr cfg) (PDIcarr cfg) carrError;
          carrFreq' = dadd (carrFreqBasis cfg) carrNco;
          codeError = code_discriminator I_E Q_E I_L Q_L;
          codeNco = loop_filter (oldCodeNco st) (oldCodeError st)
                      (tau1code cfg) (tau2code cfg) (PDIcode cfg) codeError;
          codeFreq' = dsub codeFreqBasis codeNco;
          absoluteSample = dsub (d_of_int (c_div fpos' (dataAdaptCoeff cfg))) remCodePhase'
      in st'\<lparr>remCodePhase := remCodePhase', remCarrPhase := remCarrPhase',
               carrFreq := carrFreq', codeFreq := codeFreq',
               oldCarrNco := carrNco, oldCarrError := carrError,
               oldCodeNco := codeNco, oldCodeError := codeError,
               rawSignal := rawSignal', fpdata := fpdata', fpos := fpos',
               outputs := (outputs st)[nat loopcount :=
                 \<lparr>carrFreq_output = carrFreq',
                  codeFreq_output = codeFreq',
                  absoluteSample_output = absoluteSample,
                  codeError_output = codeError,
                  codeNco_output = codeNco,
                  carrError_output = carrError,
                  carrNco_output = carrNco,
                  I_E_output = I_E, I_P_output = I_P, I_L_output = I_L,
                  Q_E_output = Q_E, Q_P_output = Q_P, Q_L_output = Q_L\<rparr>]\<rparr>)"

text \<open>
  One pass of the loop body of \<open>main\<close>.  The result is \<open>None\<close> where C leaves the
  behaviour undefined: a conversion out of range, a block that is empty or does not fit
  the buffer allocated before the loop, an index outside the code table, a division of
  the file position by a zero \<open>dataAdaptCoeff\<close>.  The conversion in the carrier phase
  advance and the division by \<open>dataAdaptCoeff\<close> are checked before the arithmetic of
  \<open>epoch_tail\<close>, which cannot fail.  The value \<open>fread\<close> returns is assigned to \<open>i\<close> and
  overwritten by the next loop without being read: nothing depends on it.
\<close>

definition epoch :: "config \<Rightarrow> mul_and_acc \<Rightarrow> int \<Rightarrow> tracking \<Rightarrow> tracking option" where
  "epoch cfg avx512_mul_and_acc_16i loopcount st =
     do {
       let codePhaseStep = ddiv (codeFreq st) (samplingFreq cfg);
       blksize \<leftarrow> block_size (codeLength cfg) (remCodePhase st) codePhaseStep;
       require (0 < blksize \<and> 0 \<le> dataAdaptCoeff cfg * blksize
                \<and> dataAdaptCoeff cfg * blksize \<le> int (length (rawSignal st))
                \<and> blksize \<le> int (length (rawSignal st)));
       let (rawSignal', fpdata', n_read) =
             fread (rawSignal st) (nat (dataAdaptCoeff cfg * blksize)) (fpdata st);
       let fpos' = fpos st + int n_read;
       vecs \<leftarrow> those (map (\<lambda>i. block_sample cfg st codePhaseStep rawSignal' (int i))
                        [0..<nat blksize]);
       remCarrPhase' \<leftarrow> advance_remCarrPhase cfg st blksize;
       require (dataAdaptCoeff cfg \<noteq> 0);
       Some (epoch_tail cfg avx512_mul_and_acc_16i loopcount st blksize rawSignal' fpdata'
               fpos' vecs remCarrPhase')
     }"

fun run_epochs :: "config \<Rightarrow> mul_and_acc \<Rightarrow> int list \<Rightarrow> tracking \<Rightarrow> tracking option" where
  "run_epochs cfg macc [] st = Some st"
| "run_epochs cfg macc (loopcount # rest) st =
     do { st' \<leftarrow> epoch cfg macc loopcount st; run_epochs cfg macc rest st' }"

definition zero_result :: result where
  "zero_result =
     \<lparr>carrFreq_output = Num 0, codeFreq_output = Num 0, absoluteSample_output = Num 0,
      codeError_output = Num 0, codeNco_output = Num 0, carrError_output = Num 0,
      carrNco_output = Num 0, I_E_output = Num 0, I_P_output = Num 0, I_L_output = Num 0,
      Q_E_output = Num 0, Q_P_output = Num 0, Q_L_output = Num 0\<rparr>"

text \<open>
  The state before the first epoch: the initial values, the zeroed buffer and output
  arrays of \<open>calloc\<close>, and the file positioned by \<open>fseek\<close>.
\<close>

definition initialise :: "config \<Rightarrow> 8 word list \<Rightarrow> tracking option" where
  "initialise cfg file =
     do {
       require (vsmInterval cfg \<noteq> 0 \<and> 0 \<le> codePeriods cfg
                \<and> 0 \<le> dataAdaptCoeff cfg * init_blksize cfg);
       offset \<leftarrow> long_of_double (dmul (d_of_int (dataAdaptCoeff cfg)) (seekvalue cfg));
       require (0 \<le> offset);
       Some \<lparr>remCodePhase = init_remCodePhase cfg,
             remCarrPhase = init_remCarrPhase cfg,
             carrFreq = init_carrFreq cfg,
             codeFreq = Num 1023002.79220779,
             oldCarrNco = Num 0, oldCarrError = Num 0,
             oldCodeNco = Num 0, oldCodeError = Num 0,
             vsmCount = 0, pwrSum = Num 0, pwrSqrSum = Num 0,
             rawSignal = replicate (nat (dataAdaptCoeff cfg * init_blksize cfg)) 0,
             fpdata = drop (nat offset) file,
             fpos = offset,
             outputs = replicate (nat (codePeriods cfg)) zero_result,
             VSMIndex = replicate (nat (c_div (codePeriods cfg) (vsmInterval cfg))) (Num 0),
             VSMValue = replicate (nat (c_div (codePeriods cfg) (vsmInterval cfg))) (Num 0)\<rparr>
     }"

definition main :: "config \<Rightarrow> mul_and_acc \<Rightarrow> 8 word list \<Rightarrow> tracking option" where
  "main cfg macc file =
     do {
       st \<leftarrow> initialise cfg file;
       run_epochs cfg macc (map int [0..<nat (codePeriods cfg)]) st
     }"

subsection \<open>Formulas of the specification\<close>




subsection \<open>Two small runs\<close>


text \<open>
  A run of one epoch whose block is one sample long (code length 1, sampling frequency
  equal to the code frequency), on a sample file that is empty.
\<close>

definition short_read_cfg :: config where
  "short_read_cfg =
     \<lparr>caCode = replicate 1025 (Num 1), init_blksize = 1, init_remCodePhase = Num 0,
      earlyLateSpc = Num 0.5, samplingFreq = Num 1023002.79220779,
      init_remCarrPhase = Num 0, init_carrFreq = Num 0, seekvalue = Num 0,
      tau1carr = Num 1, tau2carr = Num 1, PDIcarr = Num 1, carrFreqBasis = Num 0,
      tau1code = Num 1, tau2code = Num 1, PDIcode = Num 1, codeLength = Num 1,
      codePeriods = 1, dataAdaptCoeff = 1, vsmInterval = 1, accInt = Num 1\<rparr>"

definition short_read_start :: tracking where
  "short_read_start =
     \<lparr>remCodePhase = Num 0, remCarrPhase = Num 0, carrFreq = Num 0,
      codeFreq = Num 1023002.79220779,
      oldCarrNco = Num 0, oldCarrError = Num 0, oldCodeNco = Num 0, oldCodeError = Num 0,
      vsmCount = 0, pwrSum = Num 0, pwrSqrSum = Num 0,
      rawSignal = [0], fpdata = [], fpos = 0,
      outputs = [zero_result], VSMIndex = [Num 0], VSMValue = [Num 0]\<rparr>"




section \<open>Results about the kernels\<close>

subsection \<open>Arithmetic of the lanes\<close>












subsection \<open>Multiply-accumulate on \<open>short\<close>\<close>




subsection \<open>Accumulate on \<open>short\<close>\<close>

text \<open>
  C10: \<open>avx_accumulate_short\<close> and \<open>avx_accumulate_short_unsat\<close> return the same value
  for every input vector and every length: both add lanes with saturation in the batched
  part and add exactly in \<open>int\<close> for the horizontal sum and the leftover elements.
\<close>

theorem accumulate_short_variants_equal:
  "avx_accumulate_short inputBuffer num_points =
   avx_accumulate_short_unsat inputBuffer num_points"
  by (simp only: avx_accumulate_short_def avx_accumulate_short_unsat_def)

text \<open>
  C7: on 32 samples whose lane 0 receives 32767 and then 1, \<open>avx_accumulate_short_unsat\<close>
  returns 32767: the lane stays clamped at the maximum of the 16-bit type, whereas the
  rollover the documentation describes would give -32768.
\<close>

theorem accumulate_short_unsat_clamps:
  "avx_accumulate_short_unsat rollover_input 32 = 32767 \<and>
   accumulate_short_rollover rollover_input 32 = - 32768"
  by code_simp

subsection \<open>Carrier oscillator\<close>

lemma uint_drop_bit_24: "uint (drop_bit 24 (w :: 32 word)) < 256"
proof -
  have "unat w < 2 ^ 32" using unsigned_less [of w] by simp
  then have "unat w div 2 ^ 24 < 256" by simp
  moreover have "unat (drop_bit 24 w) = drop_bit 24 (unat w)" by (rule unat_drop_bit_eq)
  moreover have "drop_bit 24 (unat w) = unat w div 2 ^ 24" by (rule drop_bit_eq_div)
  ultimately have u: "unat (drop_bit 24 w) < 256" by (simp only:)
  have "uint (drop_bit 24 w) = int (unat (drop_bit 24 w))" by simp
  with u show ?thesis by linarith
qed

lemma drop_bit_24_mask: "drop_bit 24 (w :: 32 word) AND 0xFF = drop_bit 24 w"
proof -
  have "(0xFF :: 32 word) = mask 8" by (simp add: mask_eq_exp_minus_1)
  moreover have "drop_bit 24 w AND mask 8 = drop_bit 24 w"
    using uint_drop_bit_24 [of w] by (simp add: mask_eq_iff)
  ultimately show ?thesis by simp
qed

lemma sint_drop_bit_24: "sint (drop_bit 24 (w :: 32 word)) = uint (drop_bit 24 w AND 0xFF)"
proof -
  have lo: "- (2 ^ 31) \<le> uint (drop_bit 24 w)"
    by (rule order_trans [of _ 0]) simp_all
  have hi: "uint (drop_bit 24 w) < 2 ^ 31"
    by (rule less_trans [OF uint_drop_bit_24]) simp
  have "signed_take_bit 31 (uint (drop_bit 24 w)) = uint (drop_bit 24 w)"
    using lo hi by (rule signed_take_bit_int_eq_self)
  then show ?thesis by (simp add: sint_uint drop_bit_24_mask)
qed

lemma nom_loop:
  "foldl (\<lambda>(sig_nco, carrPhaseBase) inda.
             let carrIndex = drop_bit 24 carrPhaseBase AND 0xFF
             in (sig_nco @ [lut (uint carrIndex)], carrPhaseBase + carrStep))
     (out, base) [m..<m + n] =
   (out @ map (lut_sample lut base carrStep) [0..<n], base + of_nat n * carrStep)"
proof (induction n)
  case 0
  then show ?case by simp
next
  case (Suc n)
  have "[m..<m + Suc n] = [m..<m + n] @ [m + n]" by simp
  then show ?case
    by (simp only: foldl_append Suc.IH) (simp add: lut_sample_def Let_def algebra_simps)
qed

text \<open>The per-sample generator writes the sample of every position.\<close>

lemma avx2_nom_nco_si32_samples:
  "avx2_nom_nco_si32_loop lut blk_size base step = map (lut_sample lut base step) [0..<blk_size]"
  using nom_loop [of lut step "[]" base 0 blk_size]
  by (simp add: avx2_nom_nco_si32_loop_def)

lemma batch_loop:
  "foldl (\<lambda>(sig_nco, carr_phase_base) inda.
             let carr_idx = mm256_srli_epi32 carr_phase_base 24;
                 nco = mm256_i32gather_epi32 lut carr_idx;
                 carr_phase_base = mm256_add_epi32 carr_phase_base (mm256_set1_epi32 (8 * step))
             in (sig_nco @ nco, carr_phase_base))
     ([], map (\<lambda>k. base + of_nat k * step) [0..<8]) [0..<n] =
   (map (lut_sample lut base step) [0..<8 * n],
    map (\<lambda>k. base + of_nat (8 * n + k) * step) [0..<8])"
proof (induction n)
  case 0
  then show ?case by simp
next
  case (Suc n)
  have "map (\<lambda>k. 8 * n + k) [0..<8] = [8 * n..<8 * n + 8]"
    using map_add_upt [of "8 * n" 8] by (simp add: add.commute)
  moreover have "[0..<8 * n + 8] = [0..<8 * n] @ [8 * n..<8 * n + 8]"
    by (rule upt_add_eq_append) simp
  ultimately have split: "[0..<8 * Suc n] = [0..<8 * n] @ map (\<lambda>k. 8 * n + k) [0..<8]"
    by (simp add: add.commute)
  have gather: "mm256_i32gather_epi32 lut
           (mm256_srli_epi32 (map (\<lambda>k. base + of_nat (8 * n + k) * step) [0..<8]) 24) =
         map (\<lambda>k. lut_sample lut base step (8 * n + k)) [0..<8]"
    by (simp add: mm256_i32gather_epi32_def mm256_srli_epi32_def lut_sample_def
          sint_drop_bit_24 comp_def)
  have add: "mm256_add_epi32 (map (\<lambda>k. base + of_nat (8 * n + k) * step) [0..<8])
           (mm256_set1_epi32 (8 * step)) =
         map (\<lambda>k. base + of_nat (8 * Suc n + k) * step) [0..<8]"
  proof -
    have "mm256_set1_epi32 (8 * step) = map (\<lambda>k. 8 * step) [0..<8]"
      by (simp add: mm256_set1_epi32_def map_replicate_const)
    then show ?thesis
      by (simp only: mm256_add_epi32_def map2_map_map) (simp add: algebra_simps)
  qed
  show ?case
    by (simp only: upt_Suc_append [OF le0] foldl_append Suc.IH [unfolded Let_def] foldl.simps
          prod.case Let_def gather add split map_append map_map comp_def)
qed


lemma tail_loop:
  "foldl (\<lambda>(sig_nco, nom_carr_phase_base) inda.
             let nom_carr_idx = drop_bit 24 nom_carr_phase_base AND 0xFF
             in (sig_nco @ [lut (uint nom_carr_idx)], nom_carr_phase_base + step))
     (out, base) [m..<m + n] =
   (out @ map (lut_sample lut base step) [0..<n], base + of_nat n * step)"
  by (rule nom_loop)

text \<open>
  The batched generator writes the same samples in its batches; in the leftover positions
  it writes the sample that belongs seven positions further on.
\<close>

lemma avx2_nco_si32_samples:
  "avx2_nco_si32_loop lut blk_size base step =
     map (lut_sample lut base step) [0..<8 * (blk_size div 8)] @
     map (\<lambda>i. lut_sample lut base step (i + 7)) [8 * (blk_size div 8)..<blk_size]"
proof -
  let ?n = "blk_size div 8"
  have init: "mm256_add_epi32 (mm256_set1_epi32 base)
                (mm256_set_epi32 (7 * step) (6 * step) (5 * step) (4 * step) (3 * step)
                   (2 * step) (1 * step) (0 * step)) =
              map (\<lambda>k. base + of_nat k * step) [0..<8]"
    by (simp add: mm256_add_epi32_def mm256_set1_epi32_def mm256_set_epi32_def upt_conv_Cons
          eval_nat_numeral)
  have lane7: "mm256_extract_epi32 (map (\<lambda>k. base + of_nat (8 * ?n + k) * step) [0..<8]) 7 =
               base + of_nat (8 * ?n + 7) * step"
    by (simp add: mm256_extract_epi32_def)
  have rest: "[?n * 8..<blk_size] = [?n * 8..<?n * 8 + (blk_size - ?n * 8)]"
    by simp
  have shift: "map (lut_sample lut (base + of_nat (8 * ?n + 7) * step) step)
                 [0..<blk_size - ?n * 8] =
               map (\<lambda>i. lut_sample lut base step (i + 7)) [8 * ?n..<blk_size]"
  proof -
    have "[8 * ?n..<blk_size] = map (\<lambda>i. i + 8 * ?n) [0..<blk_size - ?n * 8]"
      by (simp add: map_add_upt mult.commute)
    then show ?thesis
      by (simp add: lut_sample_def comp_def algebra_simps)
  qed
  show ?thesis
    unfolding avx2_nco_si32_loop_def
    by (simp only: Let_def init batch_loop [unfolded Let_def] prod.case lane7)
       (simp only: rest tail_loop [unfolded Let_def] prod.case shift)
qed

text \<open>Hence the two generators agree on every block whose size is a multiple of 8.\<close>

lemma nco_agree_on_multiples_of_8:
  assumes "8 dvd blk_size"
  shows "avx2_nco_si32_loop lut blk_size base step = avx2_nom_nco_si32_loop lut blk_size base step"
  using assms by (simp add: avx2_nco_si32_samples avx2_nom_nco_si32_samples)

text \<open>
  C1: for a block of one sample, remaining phase 0, carrier frequency 1 and sampling
  frequency 256 (phase word 0, step \<open>2^24\<close>), on the table that stores each index at its
  own entry, the batched generator writes entry 7 and the per-sample generator entry 0:
  the leftover loop of the batched generator restarts from lane 7 of the phase register,
  which is seven steps ahead of the next sample.
\<close>

theorem nco_batched_differs_from_per_sample:
  "avx2_nco_si32 index_lut 1 (Num 0) (Num 1) (Num 256) = Some [7] \<and>
   avx2_nom_nco_si32 index_lut 1 (Num 0) (Num 1) (Num 256) = Some [0]"
  by code_simp

section \<open>Results about the trigonometric approximations\<close>

text \<open>
  C9: for every scaled angle \<open>x\<close> within one cycle on either side of zero (the range that
  \<open>% 62832\<close> produces), with the position in the cycle taken as \<open>x mod 62832\<close> so that a
  negative angle wraps around: \<open>gps_sin\<close> is -1 exactly when the position is beyond the
  half cycle 31416 (the lower half of the cycle) and +1 otherwise; \<open>gps_cos\<close> is -1 exactly
  when the position lies strictly between the quarter cycle 15708 and the three-quarter
  cycle 47124, that is, when \<open>x\<close> lies in one of the two bands (15708, 47124) and
  (-47124, -15708), and +1 elsewhere.
\<close>

theorem gps_sin_cos_thresholds:
  assumes "- 62832 < x" and "x < 62832"
  shows "gps_sin x = (if 31416 < x mod 62832 then - 1 else 1) \<and>
         gps_cos x = (if 15708 < x mod 62832 \<and> x mod 62832 < 47124 then - 1 else 1) \<and>
         (gps_cos x = - 1 \<longleftrightarrow> (15708 < x \<and> x < 47124) \<or> (- 47124 < x \<and> x < - 15708))"
proof (cases "0 \<le> x")
  case True
  with assms have "x mod 62832 = x" by simp
  with True show ?thesis by (auto simp: gps_sin_def gps_cos_def)
next
  case False
  have "x mod 62832 = (x + 62832) mod 62832" by simp
  also have "\<dots> = x + 62832"
    using assms False by (intro mod_pos_pos_trivial) auto
  finally have "x mod 62832 = x + 62832" .
  with False show ?thesis by (auto simp: gps_sin_def gps_cos_def)
qed

text \<open>The statement at the angles -20000, 40000 and 50000.\<close>

theorem gps_sin_cos_thresholds_witness:
  "gps_sin (- 20000) = - 1 \<and> gps_cos (- 20000) = - 1 \<and> gps_sin 40000 = - 1 \<and> gps_cos 50000 = 1"
  using gps_sin_cos_thresholds [of "- 20000"] gps_sin_cos_thresholds [of 40000]
    gps_sin_cos_thresholds [of 50000]
  by simp

section \<open>Results about the code replica generator\<close>

subsection \<open>Truncation and ceiling\<close>













text \<open>
  A generated sequence holds, at each position, the table entries at the three indices of
  that position.
\<close>

lemma those_nth:
  "those xs = Some ys \<Longrightarrow> length ys = length xs \<and> (\<forall>i<length xs. xs ! i = Some (ys ! i))"
proof (induction xs arbitrary: ys)
  case Nil
  then show ?case by simp
next
  case (Cons x xs)
  then obtain y ys' where x: "x = Some y" and t: "those xs = Some ys'" and ys: "ys = y # ys'"
    by (auto split: option.splits)
  from Cons.IH [OF t] x ys show ?case
    by (auto simp: nth_Cons split: nat.splits)
qed

lemma avx2_nom_code_si32_nth:
  assumes "avx2_nom_code_si32 cacode blk_size rem code_freq samp_freq = Some (ecode, pcode, lcode)"
    and "i < nat blk_size"
  shows "\<exists>e p l. nom_code_indices (ddiv code_freq samp_freq) rem (int i) = Some (e, p, l) \<and>
           ecode ! i = cacode e \<and> pcode ! i = cacode p \<and> lcode ! i = cacode l"
proof -
  from assms(1) obtain idx
    where t: "those (map (\<lambda>inda. nom_code_indices (ddiv code_freq samp_freq) rem (int inda))
                       [0..<nat blk_size]) = Some idx"
      and e: "ecode = map (\<lambda>(e, p, l). cacode e) idx"
      and p: "pcode = map (\<lambda>(e, p, l). cacode p) idx"
      and l: "lcode = map (\<lambda>(e, p, l). cacode l) idx"
    by (auto simp: avx2_nom_code_si32_def Let_def split: Option.bind_splits)
  from those_nth [OF t] assms(2)
  have len: "length idx = nat blk_size"
    and nth: "nom_code_indices (ddiv code_freq samp_freq) rem (int i) = Some (idx ! i)"
    by auto
  obtain ei pi li where "idx ! i = (ei, pi, li)" by (cases "idx ! i")
  with nth len assms(2) e p l show ?thesis by auto
qed



section \<open>Results about the tracking loop\<close>

subsection \<open>How an epoch is put together\<close>

lemma epoch_SomeI:
  assumes "block_size (codeLength cfg) (remCodePhase st)
             (ddiv (codeFreq st) (samplingFreq cfg)) = Some blksize"
    and "0 < blksize" and "0 \<le> dataAdaptCoeff cfg * blksize"
    and "dataAdaptCoeff cfg * blksize \<le> int (length (rawSignal st))"
    and "blksize \<le> int (length (rawSignal st))"
    and "fread (rawSignal st) (nat (dataAdaptCoeff cfg * blksize)) (fpdata st) = (raw', fp', n)"
    and "those (map (\<lambda>i. block_sample cfg st (ddiv (codeFreq st) (samplingFreq cfg)) raw' (int i))
                 [0..<nat blksize]) = Some vecs"
    and "advance_remCarrPhase cfg st blksize = Some rcp"
    and "dataAdaptCoeff cfg \<noteq> 0"
  shows "epoch cfg macc k st =
           Some (epoch_tail cfg macc k st blksize raw' fp' (fpos st + int n) vecs rcp)"
  using assms by (simp add: epoch_def Let_def require_def)

lemma epoch_SomeD:
  assumes "epoch cfg macc loopcount st = Some st'"
  shows "\<exists>blksize raw' fp' pos vecs rcp.
           block_size (codeLength cfg) (remCodePhase st)
             (ddiv (codeFreq st) (samplingFreq cfg)) = Some blksize \<and>
           st' = epoch_tail cfg macc loopcount st blksize raw' fp' pos vecs rcp"
  using assms
  by (auto simp: epoch_def Let_def split: Option.bind_splits prod.splits) blast



text \<open>
  Whether an epoch completes is decided by the block size, the sizes of the buffer, the
  carrier and code phases and the configuration.  Neither the bytes of the buffer nor
  what is left of the sample file enter: the count that \<open>fread\<close> returns is kept and
  never compared with the count asked for.
\<close>

lemma those_map_None:
  "(those (map f xs) = None) = (\<exists>x \<in> set xs. f x = None)"
  by (induction xs) (auto split: option.splits)

lemma block_sample_defined_independent_of_bytes:
  "(block_sample cfg st step raw i = None) = (block_sample cfg st step raw' i = None)"
  by (auto simp: block_sample_def Let_def split: Option.bind_splits prod.splits)

lemma block_sample_fpdata:
  "block_sample cfg (st\<lparr>fpdata := f\<rparr>) step raw i = block_sample cfg st step raw i"
  by (simp add: block_sample_def)

lemma advance_remCarrPhase_fpdata:
  "advance_remCarrPhase cfg (st\<lparr>fpdata := f\<rparr>) blksize = advance_remCarrPhase cfg st blksize"
  by (simp add: advance_remCarrPhase_def)

lemma epoch_None_iff:
  "(epoch cfg macc loopcount st = None) =
     (case block_size (codeLength cfg) (remCodePhase st) (ddiv (codeFreq st) (samplingFreq cfg)) of
        None \<Rightarrow> True
      | Some blksize \<Rightarrow>
          \<not> (0 < blksize \<and> 0 \<le> dataAdaptCoeff cfg * blksize
             \<and> dataAdaptCoeff cfg * blksize \<le> int (length (rawSignal st))
             \<and> blksize \<le> int (length (rawSignal st)))
          \<or> (\<exists>i < nat blksize.
                block_sample cfg st (ddiv (codeFreq st) (samplingFreq cfg)) [] (int i) = None)
          \<or> advance_remCarrPhase cfg st blksize = None
          \<or> dataAdaptCoeff cfg = 0)"
proof (cases "block_size (codeLength cfg) (remCodePhase st) (ddiv (codeFreq st) (samplingFreq cfg))")
  case None
  then show ?thesis by (simp add: epoch_def Let_def)
next
  case (Some y)
  obtain raw' fp' n
    where f: "fread (rawSignal st) (nat (dataAdaptCoeff cfg * y)) (fpdata st) = (raw', fp', n)"
    by (metis prod_cases3)
  have t: "(those (map (\<lambda>i. block_sample cfg st (ddiv (codeFreq st) (samplingFreq cfg)) raw' (int i))
                     [0..<nat y]) = None) =
           (\<exists>i < nat y.
              block_sample cfg st (ddiv (codeFreq st) (samplingFreq cfg)) [] (int i) = None)"
    using block_sample_defined_independent_of_bytes
            [of cfg st "ddiv (codeFreq st) (samplingFreq cfg)" raw' _ "[]"]
    by (simp add: those_map_None Bex_def)
  show ?thesis
  proof (cases "those (map (\<lambda>i. block_sample cfg st (ddiv (codeFreq st) (samplingFreq cfg)) raw'
                                (int i)) [0..<nat y])")
    case None
    with t Some f show ?thesis
      by (simp add: epoch_def Let_def require_def)
  next
    case vecs: (Some vecs)
    with t have n: "\<not> (\<exists>i < nat y.
              block_sample cfg st (ddiv (codeFreq st) (samplingFreq cfg)) [] (int i) = None)"
      by simp
    have "(epoch cfg macc loopcount st = None) =
            (\<not> (0 < y \<and> 0 \<le> dataAdaptCoeff cfg * y
                \<and> dataAdaptCoeff cfg * y \<le> int (length (rawSignal st))
                \<and> y \<le> int (length (rawSignal st)))
             \<or> advance_remCarrPhase cfg st y = None \<or> dataAdaptCoeff cfg = 0)"
      using Some f vecs by (auto simp: epoch_def Let_def require_def bind_eq_None_conv)
    with n show ?thesis
      unfolding Some option.case by blast
  qed
qed

lemma epoch_defined_independent_of_file:
  "(epoch cfg macc loopcount (st\<lparr>fpdata := f\<rparr>) = None) = (epoch cfg macc loopcount st = None)"
  by (simp add: epoch_None_iff block_sample_fpdata advance_remCarrPhase_fpdata
        cong: option.case_cong)


subsection \<open>The run on an empty sample file\<close>

lemma short_read_initial: "initialise short_read_cfg [] = Some short_read_start"
  by (simp add: initialise_def short_read_cfg_def short_read_start_def require_def d_of_int_def
        truncate_toward_zero_def c_div_def)

lemma short_read_block_size:
  "block_size (codeLength short_read_cfg) (remCodePhase short_read_start)
     (ddiv (codeFreq short_read_start) (samplingFreq short_read_cfg)) = Some 1"
  by (simp add: block_size_def short_read_cfg_def short_read_start_def dsub_def
        truncate_toward_zero_def)

lemma short_read_fread:
  "fread (rawSignal short_read_start) (nat (dataAdaptCoeff short_read_cfg * 1))
     (fpdata short_read_start) = ([0], [], 0)"
  by (simp add: fread_def short_read_start_def short_read_cfg_def)

lemma short_read_samples:
  "those (map (\<lambda>i. block_sample short_read_cfg short_read_start
                     (ddiv (codeFreq short_read_start) (samplingFreq short_read_cfg)) [0] (int i))
            [0..<nat 1]) = Some [(0, 0, 1, 1, 1)]"
  by code_simp

lemma short_read_carr_phase:
  "advance_remCarrPhase short_read_cfg short_read_start 1 = Some (Num 0)"
  by (simp add: advance_remCarrPhase_def short_read_cfg_def short_read_start_def d_of_int_def
        dsub_def truncate_toward_zero_def pi_const_def)

lemma short_read_epoch:
  "epoch short_read_cfg macc 0 short_read_start =
     Some (epoch_tail short_read_cfg macc 0 short_read_start 1 [0] [] 0 [(0, 0, 1, 1, 1)] (Num 0))"
proof -
  have "epoch short_read_cfg macc 0 short_read_start =
     Some (epoch_tail short_read_cfg macc 0 short_read_start 1 [0] []
             (fpos short_read_start + int 0) [(0, 0, 1, 1, 1)] (Num 0))"
    by (rule epoch_SomeI [OF short_read_block_size _ _ _ _ short_read_fread short_read_samples
          short_read_carr_phase])
       (simp_all add: short_read_cfg_def short_read_start_def)
  then show ?thesis by (simp add: short_read_start_def)
qed

subsection \<open>The run with a zero in-phase prompt sum\<close>










subsection \<open>Code phase advance\<close>

text \<open>Every epoch that completes advances the code phase by \<open>advance_remCodePhase\<close>.\<close>

lemma epoch_advances_remCodePhase:
  assumes "epoch cfg macc loopcount st = Some st'"
  shows "\<exists>blksize. block_size (codeLength cfg) (remCodePhase st)
                       (ddiv (codeFreq st) (samplingFreq cfg)) = Some blksize \<and>
           remCodePhase st' =
             advance_remCodePhase (remCodePhase st) blksize (ddiv (codeFreq st) (samplingFreq cfg))"
proof -
  obtain blksize raw' fp' pos vecs rcp
    where b: "block_size (codeLength cfg) (remCodePhase st)
                (ddiv (codeFreq st) (samplingFreq cfg)) = Some blksize"
      and st': "st' = epoch_tail cfg macc loopcount st blksize raw' fp' pos vecs rcp"
    using epoch_SomeD [OF assms] by blast
  have "remCodePhase st' =
          advance_remCodePhase (remCodePhase st) blksize (ddiv (codeFreq st) (samplingFreq cfg))"
    by (simp add: st' epoch_tail_def Let_def)
  with b show ?thesis by blast
qed


subsection \<open>Carrier-to-noise estimate\<close>



text \<open>
  The window counter over a run: it is advanced by one in every epoch and set back to zero
  when it reaches \<open>vsmInterval\<close>, so after \<open>n\<close> epochs it holds \<open>n mod vsmInterval\<close>, and
  the epochs that complete a window are those numbered \<open>vsmInterval - 1\<close>,
  \<open>2 * vsmInterval - 1\<close>, and so on.  In such an epoch the entry written,
  \<open>loopcount / vsmInterval\<close>, is the number of the window counted from zero and lies
  inside the arrays of \<open>codePeriods / vsmInterval\<close> entries.
\<close>

lemma vsm_update_count:
  "vsmCount (vsm_update cfg loopcount I_P Q_P st) =
     (if vsmCount st + 1 = vsmInterval cfg then 0 else vsmCount st + 1)"
  by (simp add: vsm_update_def Let_def)

lemma epoch_vsmCount:
  assumes "epoch cfg macc loopcount st = Some st'"
  shows "vsmCount st' = (if vsmCount st + 1 = vsmInterval cfg then 0 else vsmCount st + 1)"
proof -
  obtain blksize raw' fp' pos vecs rcp
    where st': "st' = epoch_tail cfg macc loopcount st blksize raw' fp' pos vecs rcp"
    using epoch_SomeD [OF assms] by blast
  show ?thesis
    by (simp add: st' epoch_tail_def Let_def vsm_update_count)
qed

lemma epoch_VSM_length:
  assumes "epoch cfg macc loopcount st = Some st'"
  shows "length (VSMIndex st') = length (VSMIndex st) \<and> length (outputs st') = length (outputs st)"
proof -
  obtain blksize raw' fp' pos vecs rcp
    where st': "st' = epoch_tail cfg macc loopcount st blksize raw' fp' pos vecs rcp"
    using epoch_SomeD [OF assms] by blast
  show ?thesis
    by (simp add: st' epoch_tail_def Let_def vsm_update_def)
qed

lemma mod_succ_int:
  assumes "0 < (V :: int)" and "0 \<le> k"
  shows "(k + 1) mod V = (if k mod V + 1 = V then 0 else k mod V + 1)"
proof -
  have b: "0 \<le> k mod V" "k mod V < V" using assms by simp_all
  have "(k + 1) mod V = (k mod V + 1) mod V" by (simp add: mod_add_left_eq)
  also have "\<dots> = (if k mod V + 1 = V then 0 else k mod V + 1)"
    using b by (auto simp: mod_pos_pos_trivial)
  finally show ?thesis .
qed

lemma run_epochs_append:
  "run_epochs cfg macc (xs @ ys) st =
     (case run_epochs cfg macc xs st of None \<Rightarrow> None | Some st' \<Rightarrow> run_epochs cfg macc ys st')"
  by (induction xs arbitrary: st) (auto split: Option.bind_splits)

lemma run_epochs_vsmCount:
  assumes "0 < vsmInterval cfg"
    and "run_epochs cfg macc (map int [0..<n]) st = Some st'"
    and "vsmCount st = 0"
  shows "vsmCount st' = int n mod vsmInterval cfg"
  using assms(2)
proof (induction n arbitrary: st')
  case 0
  with assms(3) show ?case by simp
next
  case (Suc n)
  from Suc.prems obtain mid
    where m: "run_epochs cfg macc (map int [0..<n]) st = Some mid"
      and e: "epoch cfg macc (int n) mid = Some st'"
    by (auto simp: run_epochs_append split: option.splits Option.bind_splits)
  have "vsmCount mid = int n mod vsmInterval cfg" using m by (rule Suc.IH)
  with epoch_vsmCount [OF e] assms(1) show ?case
    using mod_succ_int [of "vsmInterval cfg" "int n"] by (simp add: add.commute)
qed

lemma window_index_in_range:
  assumes "0 < (V :: int)" and "0 \<le> k" and "k < P" and "k mod V + 1 = V"
  shows "c_div k V = (k + 1) div V - 1" and "nat (c_div k V) < nat (c_div P V)"
proof -
  have k: "V * (k div V) + k mod V = k" by (rule mult_div_mod_eq)
  have "k + 1 = V * (k div V) + (k mod V + 1)" using k by linarith
  also have "\<dots> = V * (k div V) + V" using assms(4) by simp
  also have "\<dots> = (k div V + 1) * V" by (simp add: algebra_simps)
  finally have k1: "k + 1 = (k div V + 1) * V" .
  then have d: "(k + 1) div V = k div V + 1" using assms(1) by simp
  have c: "c_div k V = k div V" using assms(1,2) by (simp add: c_div_def)
  from c d show "c_div k V = (k + 1) div V - 1" by simp
  have "k + 1 \<le> P" using assms(3) by simp
  then have "(k + 1) div V \<le> P div V" using assms(1) by (simp add: zdiv_mono1)
  with d have "k div V < P div V" by simp
  moreover have "0 \<le> k div V" using assms(1,2) by (simp add: pos_imp_zdiv_nonneg_iff)
  moreover have "c_div P V = P div V" using assms(1,2,3) by (simp add: c_div_def)
  ultimately show "nat (c_div k V) < nat (c_div P V)" using c by simp
qed



subsection \<open>Short read\<close>

text \<open>
  C6: on an empty sample file the first epoch asks for one sample and \<open>fread\<close> delivers
  none, yet the run is not aborted: \<open>main\<close> completes, the epoch works on the zeroed
  buffer and its record is stored, with the prompt sums that the correlation kernel
  returns for the sample 0.
\<close>

theorem short_read_is_not_fatal:
  "block_size (codeLength short_read_cfg) (remCodePhase short_read_start)
     (ddiv (codeFreq short_read_start) (samplingFreq short_read_cfg)) = Some 1 \<and>
   fread (rawSignal short_read_start) (nat (dataAdaptCoeff short_read_cfg * 1))
     (fpdata short_read_start) = ([0], [], 0) \<and>
   main short_read_cfg macc [] =
     Some (epoch_tail short_read_cfg macc 0 short_read_start 1 [0] [] 0 [(0, 0, 1, 1, 1)]
             (Num 0)) \<and>
   I_P_output (outputs (epoch_tail short_read_cfg macc 0 short_read_start 1 [0] [] 0
      [(0, 0, 1, 1, 1)] (Num 0)) ! 0) = macc [1] [0] 1 \<and>
   Q_P_output (outputs (epoch_tail short_read_cfg macc 0 short_read_start 1 [0] [] 0
      [(0, 0, 1, 1, 1)] (Num 0)) ! 0) = macc [1] [0] 1"
proof -
  have "codePeriods short_read_cfg = 1" by (simp add: short_read_cfg_def)
  then have m: "main short_read_cfg macc [] =
     Some (epoch_tail short_read_cfg macc 0 short_read_start 1 [0] [] 0 [(0, 0, 1, 1, 1)] (Num 0))"
    by (simp add: main_def short_read_initial short_read_epoch)
  have i: "I_P_output (outputs (epoch_tail short_read_cfg macc 0 short_read_start 1 [0] [] 0
      [(0, 0, 1, 1, 1)] (Num 0)) ! 0) = macc [1] [0] 1"
    and q: "Q_P_output (outputs (epoch_tail short_read_cfg macc 0 short_read_start 1 [0] [] 0
      [(0, 0, 1, 1, 1)] (Num 0)) ! 0) = macc [1] [0] 1"
    by (simp_all add: epoch_tail_def Let_def short_read_start_def)
  show ?thesis
    by (intro conjI short_read_block_size short_read_fread m i q)
qed

subsection \<open>Degenerate correlation sums\<close>









end
